theory Spec2Isabelle
  imports Complex_Main
begin

section \<open>Go values used by the scan service\<close>

text \<open>
  A Go \<^verbatim>\<open>[]byte\<close> and a Go \<^verbatim>\<open>string\<close> are both sequences of bytes; both are
  modelled as \<^typ>\<open>string\<close> (a list of 8-bit characters), so the conversion
  \<^verbatim>\<open>string(b)\<close> is the identity.

  A Go \<^verbatim>\<open>error\<close> is a value; \<^verbatim>\<open>nil\<close> is \<^term>\<open>None\<close>. The errors that occur in
  \<^verbatim>\<open>pkg/kics/service.go\<close> are \<^verbatim>\<open>io.EOF\<close>, the ones made by \<^verbatim>\<open>errors.New\<close>, and the
  ones wrapped by \<^verbatim>\<open>errors.Wrap\<close> / \<^verbatim>\<open>errors.Wrapf\<close>.
\<close>

datatype error = io_EOF | errors_New string | Wrapped error string

text \<open>\<^verbatim>\<open>errors.Wrap(err, msg)\<close> returns nil when \<^verbatim>\<open>err\<close> is nil.\<close>

fun errors_Wrap :: "error option \<Rightarrow> string \<Rightarrow> error option" where
  "errors_Wrap None msg = None"
| "errors_Wrap (Some err) msg = Some (Wrapped err msg)"

section \<open>getContent\<close>

text \<open>
  An \<^verbatim>\<open>io.Reader\<close> is an object with a method \<^verbatim>\<open>Read(p []byte) (n int, err error)\<close>.
  It is modelled by its state \<open>'r\<close> and the method: given the state and \<^verbatim>\<open>len(p)\<close>,
  \<open>Read\<close> returns the bytes it wrote (\<^verbatim>\<open>p[:n]\<close>), the error, and the next state.
  The contract of \<^verbatim>\<open>io.Reader\<close> is \<^verbatim>\<open>0 <= n <= len(p)\<close>; where a property needs it, it is
  a hypothesis.
\<close>

type_synonym 'r Reader = "'r \<Rightarrow> nat \<Rightarrow> (string \<times> error option) \<times> 'r"

text \<open>\<^verbatim>\<open>data := make([]byte, 1048576)\<close>: the length of the buffer handed to every \<^verbatim>\<open>Read\<close>.\<close>

definition chunkSize :: nat where
  "chunkSize = 1048576"

text \<open>
  The three ways the \<^verbatim>\<open>for\<close> loop of \<^verbatim>\<open>getContent\<close> is left, each with the local
  \<^verbatim>\<open>content\<close> accumulated so far: \<^verbatim>\<open>break\<close> on \<^verbatim>\<open>io.EOF\<close>, the size limit, any
  other read error. The bytes of a \<^verbatim>\<open>Read\<close> are appended only when its error is nil.
\<close>

datatype loop_exit = Break | LimitExceeded | ReadFailed error

function getContent_loop :: "'r Reader \<Rightarrow> 'r \<Rightarrow> int \<Rightarrow> string \<Rightarrow> loop_exit \<times> string" where
  "getContent_loop Read rc maxSizeMB content =
     (if maxSizeMB < 0 then (LimitExceeded, content)
      else (case Read rc chunkSize of
              ((d, Some err), rc') \<Rightarrow>
                 (if err = io_EOF then (Break, content) else (ReadFailed err, content))
            | ((d, None), rc') \<Rightarrow>
                 getContent_loop Read rc' (maxSizeMB - 1) (content @ d)))"
  by pat_completeness auto
termination
  by (relation "measure (\<lambda>(Read, rc, maxSizeMB, content). nat (maxSizeMB + 1))") auto

declare getContent_loop.simps [simp del]

text \<open>
  \<^verbatim>\<open>getContent\<close> starts the loop with \<^verbatim>\<open>maxSizeMB := 5\<close> and an empty \<^verbatim>\<open>content\<close>; it
  returns \<^verbatim>\<open>&content, nil\<close> after the \<^verbatim>\<open>break\<close> and \<^verbatim>\<open>&[]byte{}\<close> with the error
  otherwise.
\<close>

definition getContent :: "'r Reader \<Rightarrow> 'r \<Rightarrow> string \<times> error option" where
  "getContent Read rc =
     (case getContent_loop Read rc 5 [] of
        (Break, content) \<Rightarrow> (content, None)
      | (LimitExceeded, content) \<Rightarrow> ([], Some (errors_New ''file size limit exceeded''))
      | (ReadFailed err, content) \<Rightarrow> ([], Some err))"

text \<open>
  Two readers. \<open>full_Read\<close> reads from the bytes that remain and fills the buffer on
  every call while bytes remain, then reports \<^verbatim>\<open>(0, io.EOF)\<close>: the way a regular file is
  read. \<open>script_Read\<close> replays a list of results, one per call, and reports
  \<^verbatim>\<open>(0, io.EOF)\<close> once the list is used up: a reader that may return fewer bytes than the
  buffer holds, as \<^verbatim>\<open>io.Reader\<close> allows.
\<close>

definition full_Read :: "string Reader" where
  "full_Read rest n =
     (if rest = [] then (([], Some io_EOF), []) else ((take n rest, None), drop n rest))"

definition script_Read :: "(string \<times> error option) list Reader" where
  "script_Read rc n = (case rc of [] \<Rightarrow> (([], Some io_EOF), []) | r # rc' \<Rightarrow> (r, rc'))"

section \<open>The data model of a scan\<close>

text \<open>
  A parsed document (\<^verbatim>\<open>model.Document\<close>, a \<^verbatim>\<open>map[string]interface{}\<close>) and the input of
  a policy are trees of scalars, sequences and keyed mappings. A mapping is an
  association list; a key is looked up with \<^const>\<open>map_of\<close>. A number is a rational
  (every finite JSON number is one).
\<close>

datatype json =
    JNull
  | JBool bool
  | JNum rat
  | JStr string
  | JArr "json list"
  | JObj "(string \<times> json) list"

text \<open>
  Modelled from the spec: \<^verbatim>\<open>model.FileKind\<close>, whose declaration is not among the source
  files. The code names \<^verbatim>\<open>model.KindCOMMON\<close> and \<^verbatim>\<open>model.KindHELM\<close>; the others are the
  kinds the spec's data model lists (Terraform, Kubernetes, CloudFormation, Ansible,
  Dockerfile, Helm, Common/unknown).
\<close>

datatype FileKind =
    KindTerraform
  | KindKubernetes
  | KindCloudFormation
  | KindAnsible
  | KindDockerfile
  | KindHELM
  | KindCOMMON

text \<open>
  \<^verbatim>\<open>model.FileMetadata\<close>, with the fields the two sinks of \<^verbatim>\<open>StartScan\<close> set.
  \<^verbatim>\<open>IDInfo\<close> is a \<^verbatim>\<open>map[int]interface{}\<close> whose values are \<^verbatim>\<open>map[int]int\<close> (the test of the
  line detector builds one); it is an association list, and the nil map is \<open>[]\<close>.
\<close>

record FileMetadata =
  ID :: string
  ScanID :: string
  Document :: json
  OriginalData :: string
  Kind :: FileKind
  FileName :: string
  Content :: string
  HelmID :: string
  IDInfo :: "(int \<times> (int \<times> int) list) list"

text \<open>
  \<^verbatim>\<open>model.RenderedFile\<close> and \<^verbatim>\<open>model.RenderedFiles\<close>, as the resolve sink and the test of
  the Helm resolver use them. The fields of a rendered file carry the prefix \<open>r\<close>,
  since a field name belongs to one record only.
\<close>

record RenderedFile =
  rSplitID :: string
  rFileName :: string
  rContent :: string
  rOriginalData :: string
  rIDInfo :: "(int \<times> (int \<times> int) list) list"

record RenderedFiles =
  File :: "RenderedFile list"

section \<open>The scan service\<close>

text \<open>
  What a scan changes: the list \<^verbatim>\<open>files\<close> that both sinks of \<^verbatim>\<open>StartScan\<close> append to,
  the state of the \<^verbatim>\<open>Storage\<close>, the two counters of the \<^verbatim>\<open>Tracker\<close> (its interface says
  that \<^verbatim>\<open>TrackFileFound\<close> and \<^verbatim>\<open>TrackFileParse\<close> increment a number), and how many
  identifiers \<^verbatim>\<open>uuid.New()\<close> has handed out.
\<close>

record 'st scan_state =
  files :: "FileMetadata list"
  storage :: 'st
  found :: nat
  parsed :: nat
  uuids :: nat

text \<open>
  The collaborators of \<^verbatim>\<open>Service\<close>. Each is an interface or a package whose code is not
  part of \<^verbatim>\<open>service.go\<close>, so each is a parameter: any parser, resolver, storage,
  inspector and source provider. A method that changes its object takes the object's
  state and returns the new one. \<open>Parse\<close> returns either its error or the documents and
  the kind; \<open>Resolve\<close>, \<open>Inspect\<close> and the two \<open>Save\<close> methods return their error
  (\<open>None\<close> for nil) beside their value. \<open>uuid_New k\<close> is the identifier of the
  \<open>k\<close>-th call of \<^verbatim>\<open>uuid.New().String()\<close>.
\<close>

record ('st, 'r, 'v) Service =
  GetSources :: "string list
      \<Rightarrow> (string \<Rightarrow> 'r \<Rightarrow> 'st scan_state \<Rightarrow> error option \<times> 'st scan_state)
      \<Rightarrow> (string \<Rightarrow> 'st scan_state \<Rightarrow> error option \<times> 'st scan_state)
      \<Rightarrow> 'st scan_state \<Rightarrow> error option \<times> 'st scan_state"
  GetBasePath :: string
  rc_Read :: "'r Reader"
  SupportedExtensions :: "string list"
  Parse :: "string \<Rightarrow> string \<Rightarrow> error + (json list \<times> FileKind)"
  json_Marshal :: "json \<Rightarrow> error option"
  uuid_New :: "nat \<Rightarrow> string"
  GetType :: "string \<Rightarrow> FileKind"
  Resolve :: "string \<Rightarrow> FileKind \<Rightarrow> RenderedFiles \<times> error option"
  SaveFile :: "'st \<Rightarrow> FileMetadata \<Rightarrow> error option \<times> 'st"
  SaveVulnerabilities :: "'st \<Rightarrow> 'v list \<Rightarrow> error option \<times> 'st"
  Inspect :: "string \<Rightarrow> FileMetadata list \<Rightarrow> bool \<Rightarrow> string \<Rightarrow> 'v list \<times> error option"

definition TrackFileFound :: "'st scan_state \<Rightarrow> 'st scan_state" where
  "TrackFileFound st = st\<lparr>found := found st + 1\<rparr>"

definition TrackFileParse :: "'st scan_state \<Rightarrow> 'st scan_state" where
  "TrackFileParse st = st\<lparr>parsed := parsed st + 1\<rparr>"

definition new_uuid :: "('st, 'r, 'v) Service \<Rightarrow> 'st scan_state \<Rightarrow> string \<times> 'st scan_state" where
  "new_uuid s st = (uuid_New s (uuids st), st\<lparr>uuids := uuids st + 1\<rparr>)"

text \<open>
  \<^verbatim>\<open>saveToFile\<close>: the file is appended, and counted as parsed, only when \<^verbatim>\<open>SaveFile\<close>
  returned nil; the error of \<^verbatim>\<open>SaveFile\<close> is not returned.
\<close>

definition saveToFile ::
  "('st, 'r, 'v) Service \<Rightarrow> FileMetadata \<Rightarrow> 'st scan_state \<Rightarrow> 'st scan_state" where
  "saveToFile s file st =
     (case SaveFile s (storage st) file of
        (None, sto) \<Rightarrow> TrackFileParse (st\<lparr>files := files st @ [file], storage := sto\<rparr>)
      | (Some err, sto) \<Rightarrow> st\<lparr>storage := sto\<rparr>)"

text \<open>
  The first sink (for a file that is parsed directly). The loop over the documents
  carries the variable \<^verbatim>\<open>err\<close>, which \<^verbatim>\<open>json.Marshal\<close> assigns in every iteration and
  which the sink wraps and returns at its end. The literal of \<^verbatim>\<open>model.FileMetadata\<close> sets
  six fields; \<^verbatim>\<open>Content\<close>, \<^verbatim>\<open>HelmID\<close> and \<^verbatim>\<open>IDInfo\<close> keep Go's zero values.
\<close>

fun parse_documents ::
  "('st, 'r, 'v) Service \<Rightarrow> string \<Rightarrow> string \<Rightarrow> string \<Rightarrow> FileKind \<Rightarrow> json list
     \<Rightarrow> error option \<times> 'st scan_state \<Rightarrow> error option \<times> 'st scan_state" where
  "parse_documents s scanID filename content kind [] (err, st) = (err, st)"
| "parse_documents s scanID filename content kind (document # documents) (err, st) =
     (case json_Marshal s document of
        Some e \<Rightarrow> parse_documents s scanID filename content kind documents (Some e, st)
      | None \<Rightarrow>
          (case new_uuid s st of
             (uid, st1) \<Rightarrow>
               parse_documents s scanID filename content kind documents
                 (None,
                  saveToFile s
                    \<lparr>ID = uid, ScanID = scanID, Document = document, OriginalData = content,
                     Kind = kind, FileName = filename, Content = [], HelmID = [],
                     IDInfo = []\<rparr>
                    st1)))"

definition parse_sink ::
  "('st, 'r, 'v) Service \<Rightarrow> string \<Rightarrow> string \<Rightarrow> 'r \<Rightarrow> 'st scan_state
     \<Rightarrow> error option \<times> 'st scan_state" where
  "parse_sink s scanID filename rc st =
     (case getContent (rc_Read s) rc of
        (content, Some err) \<Rightarrow>
          (errors_Wrap (Some err) (''failed to get file content: '' @ filename),
           TrackFileFound st)
      | (content, None) \<Rightarrow>
          (case Parse s filename content of
             Inl err \<Rightarrow>
               (errors_Wrap (Some err) ''failed to parse file content'', TrackFileFound st)
           | Inr (documents, kind) \<Rightarrow>
               (case parse_documents s scanID filename content kind documents
                       (None, TrackFileFound st) of
                  (err, st2) \<Rightarrow> (errors_Wrap err ''failed to save file content'', st2))))"

text \<open>
  The second sink (for a file or directory the resolver renders). Its inner \<^verbatim>\<open>err\<close> is
  local to the loop body and the sink returns nil at its end. The file literal copies
  \<^verbatim>\<open>SplitID\<close> and \<^verbatim>\<open>IDInfo\<close> of the rendered file.
\<close>

fun resolve_documents ::
  "('st, 'r, 'v) Service \<Rightarrow> string \<Rightarrow> FileKind \<Rightarrow> RenderedFile \<Rightarrow> json list
     \<Rightarrow> 'st scan_state \<Rightarrow> 'st scan_state" where
  "resolve_documents s scanID kind rfile [] st = st"
| "resolve_documents s scanID kind rfile (document # documents) st =
     (case json_Marshal s document of
        Some e \<Rightarrow> resolve_documents s scanID kind rfile documents st
      | None \<Rightarrow>
          (case new_uuid s st of
             (uid, st1) \<Rightarrow>
               resolve_documents s scanID kind rfile documents
                 (saveToFile s
                    \<lparr>ID = uid, ScanID = scanID, Document = document,
                     OriginalData = rOriginalData rfile, Kind = kind,
                     FileName = rFileName rfile, Content = rContent rfile,
                     HelmID = rSplitID rfile, IDInfo = rIDInfo rfile\<rparr>
                    st1)))"

fun resolve_files ::
  "('st, 'r, 'v) Service \<Rightarrow> string \<Rightarrow> FileKind \<Rightarrow> RenderedFile list
     \<Rightarrow> 'st scan_state \<Rightarrow> error option \<times> 'st scan_state" where
  "resolve_files s scanID kind [] st = (None, st)"
| "resolve_files s scanID kind (rfile # rfiles) st =
     (case Parse s (rFileName rfile) (rContent rfile) of
        Inl err \<Rightarrow> (errors_Wrap (Some err) ''failed to parse file content'', st)
      | Inr (documents, k) \<Rightarrow>
          resolve_files s scanID kind rfiles
            (resolve_documents s scanID kind rfile documents st))"

definition resolve_sink ::
  "('st, 'r, 'v) Service \<Rightarrow> string \<Rightarrow> string \<Rightarrow> 'st scan_state
     \<Rightarrow> error option \<times> 'st scan_state" where
  "resolve_sink s scanID filename st =
     (if GetType s filename = KindCOMMON then (None, TrackFileFound st)
      else (case Resolve s filename (GetType s filename) of
              (resFiles, Some err) \<Rightarrow>
                (errors_Wrap (Some err) ''failed to render file content'', TrackFileFound st)
            | (resFiles, None) \<Rightarrow>
                resolve_files s scanID (GetType s filename) (File resFiles)
                  (TrackFileFound st)))"

text \<open>
  \<^verbatim>\<open>StartScan\<close>: the sources are read through the two sinks, the files collected are
  inspected, and the vulnerabilities are saved.
\<close>

definition StartScan ::
  "('st, 'r, 'v) Service \<Rightarrow> string \<Rightarrow> bool \<Rightarrow> 'st scan_state
     \<Rightarrow> error option \<times> 'st scan_state" where
  "StartScan s scanID hideProgress st =
     (case GetSources s (SupportedExtensions s) (parse_sink s scanID) (resolve_sink s scanID) st of
        (Some err, st1) \<Rightarrow> (errors_Wrap (Some err) ''failed to read sources'', st1)
      | (None, st1) \<Rightarrow>
          (case Inspect s scanID (files st1) hideProgress (GetBasePath s) of
             (vulnerabilities, Some err) \<Rightarrow>
               (errors_Wrap (Some err) ''failed to inspect files'', st1)
           | (vulnerabilities, None) \<Rightarrow>
               (case SaveVulnerabilities s (storage st1) vulnerabilities of
                  (err, sto) \<Rightarrow>
                    (errors_Wrap err ''failed to save vulnerabilities'',
                     st1\<lparr>storage := sto\<rparr>))))"

text \<open>
  Modelled from the spec: \<^verbatim>\<open>SourceProvider.GetSources\<close>, an interface of which
  \<^verbatim>\<open>service.go\<close> holds only the call. The spec says that it walks a root path and hands
  each file either to the parse sink, with a reader, or to the resolve sink; that a
  sink failure is logged and skipped; and that a walk error is fatal. The walk is the
  list of what it meets.
\<close>

datatype 'r source = SourceFile string 'r | SourceTemplate string | WalkError error

fun walk_sources ::
  "'r source list \<Rightarrow> string list
     \<Rightarrow> (string \<Rightarrow> 'r \<Rightarrow> 'st scan_state \<Rightarrow> error option \<times> 'st scan_state)
     \<Rightarrow> (string \<Rightarrow> 'st scan_state \<Rightarrow> error option \<times> 'st scan_state)
     \<Rightarrow> 'st scan_state \<Rightarrow> error option \<times> 'st scan_state" where
  "walk_sources [] extensions sink resolverSink st = (None, st)"
| "walk_sources (SourceFile filename rc # rest) extensions sink resolverSink st =
     walk_sources rest extensions sink resolverSink (snd (sink filename rc st))"
| "walk_sources (SourceTemplate filename # rest) extensions sink resolverSink st =
     walk_sources rest extensions sink resolverSink (snd (resolverSink filename st))"
| "walk_sources (WalkError err # rest) extensions sink resolverSink st = (Some err, st)"

section \<open>The rendered files the test of the Helm resolver expects\<close>

text \<open>
  The Helm resolver is not among the source files; its test \<^verbatim>\<open>TestHelm_Resolve\<close> is,
  and compares what \<^verbatim>\<open>Resolve\<close> returns with these values by \<^verbatim>\<open>reflect.DeepEqual\<close>.
  They are copied here field by field. A raw string literal of the test is written as
  the list of its lines, each of which a line feed ends; \<^verbatim>\<open>filepath.FromSlash\<close> leaves a
  path as it is; a field the test does not set (\<^verbatim>\<open>IDInfo\<close>) has Go's zero value.
\<close>

definition go_lines :: "string list \<Rightarrow> string" where
  "go_lines ls = concat (map (\<lambda>l. l @ [CHR 0x0A]) ls)"

definition test_helm_service_yaml :: RenderedFile where
  \<open>test_helm_service_yaml =
     \<lparr>rSplitID = ''# KICS_HELM_ID_0:'',
      rFileName = ''../../../test/fixtures/test_helm/templates/service.yaml'',
      rContent = go_lines
          ['''',
           ''# Source: test_helm/templates/service.yaml'',
           ''# KICS_HELM_ID_0:'',
           ''apiVersion: v1'',
           ''kind: Service'',
           ''metadata:'',
           ''  name: RELEASE-NAME-test_helm'',
           ''  labels:'',
           ''    helm.sh/chart: test_helm-0.1.0'',
           ''    app.kubernetes.io/name: test_helm'',
           ''    app.kubernetes.io/instance: RELEASE-NAME'',
           ''    app.kubernetes.io/version: "1.16.0"'',
           ''    app.kubernetes.io/managed-by: Helm'',
           ''spec:'',
           ''  type: ClusterIP'',
           ''  ports:'',
           ''    - port: 80'',
           ''      targetPort: http'',
           ''      protocol: TCP'',
           ''      name: http'',
           ''  selector:'',
           ''    app.kubernetes.io/name: test_helm'',
           ''    app.kubernetes.io/instance: RELEASE-NAME''],
      rOriginalData = go_lines
          [''# KICS_HELM_ID_0:'',
           ''apiVersion: v1'',
           ''kind: Service'',
           ''metadata:'',
           ''  name: {{ include "test_helm.fullname" . }}'',
           ''  labels:'',
           ''    {{- include "test_helm.labels" . | nindent 4 }}'',
           ''spec:'',
           ''  type: {{ .Values.service.type }}'',
           ''  ports:'',
           ''    - port: {{ .Values.service.port }}'',
           ''      targetPort: http'',
           ''      protocol: TCP'',
           ''      name: http'',
           ''  selector:'',
           ''    {{- include "test_helm.selectorLabels" . | nindent 4 }}''],
      rIDInfo = []\<rparr>\<close>

definition test_helm_subchart_serviceaccount_yaml :: RenderedFile where
  \<open>test_helm_subchart_serviceaccount_yaml =
     \<lparr>rSplitID = ''# KICS_HELM_ID_1:'',
      rFileName = ''../../../test/fixtures/test_helm_subchart/templates/serviceaccount.yaml'',
      rContent = go_lines
          ['''',
           ''# Source: test_helm_subchart/templates/serviceaccount.yaml'',
           ''# KICS_HELM_ID_1:'',
           ''apiVersion: v1'',
           ''kind: ServiceAccount'',
           ''metadata:'',
           ''  name: RELEASE-NAME-test_helm_subchart'',
           ''  labels:'',
           ''    helm.sh/chart: test_helm_subchart-0.1.0'',
           ''    app.kubernetes.io/name: test_helm_subchart'',
           ''    app.kubernetes.io/instance: RELEASE-NAME'',
           ''    app.kubernetes.io/version: "1.16.0"'',
           ''    app.kubernetes.io/managed-by: Helm''],
      rOriginalData = go_lines
          [''{{- if .Values.serviceAccount.create -}}'',
           ''# KICS_HELM_ID_1:'',
           ''apiVersion: v1'',
           ''kind: ServiceAccount'',
           ''metadata:'',
           ''  name: {{ include "test_helm_subchart.serviceAccountName" . }}'',
           ''  labels:'',
           ''    {{- include "test_helm_subchart.labels" . | nindent 4 }}'',
           ''  {{- with .Values.serviceAccount.annotations }}'',
           ''  annotations:'',
           ''    {{- toYaml . | nindent 4 }}'',
           ''  {{- end }}'',
           ''{{- end }}''],
      rIDInfo = []\<rparr>\<close>

definition test_helm_subchart_service_yaml :: RenderedFile where
  \<open>test_helm_subchart_service_yaml =
     \<lparr>rSplitID = ''# KICS_HELM_ID_0:'',
      rFileName = ''../../../test/fixtures/test_helm_subchart/charts/subchart/templates/service.yaml'',
      rContent = go_lines
          ['''',
           ''# Source: test_helm_subchart/charts/subchart/templates/service.yaml'',
           ''# KICS_HELM_ID_0:'',
           ''apiVersion: v1'',
           ''kind: Service'',
           ''metadata:'',
           ''  name: RELEASE-NAME-subchart'',
           ''  labels:'',
           ''    helm.sh/chart: subchart-0.1.0'',
           ''    app.kubernetes.io/name: subchart'',
           ''    app.kubernetes.io/instance: RELEASE-NAME'',
           ''    app.kubernetes.io/version: "1.16.0"'',
           ''    app.kubernetes.io/managed-by: Helm'',
           ''spec:'',
           ''  type: ClusterIP'',
           ''  ports:'',
           ''    - port: 80'',
           ''      targetPort: http'',
           ''      protocol: TCP'',
           ''      name: http'',
           ''  selector:'',
           ''    app.kubernetes.io/name: subchart'',
           ''    app.kubernetes.io/instance: RELEASE-NAME''],
      rOriginalData = go_lines
          [''# KICS_HELM_ID_0:'',
           ''apiVersion: v1'',
           ''kind: Service'',
           ''metadata:'',
           ''  name: {{ include "subchart.fullname" . }}'',
           ''  labels:'',
           ''    {{- include "subchart.labels" . | nindent 4 }}'',
           ''spec:'',
           ''  type: {{ .Values.service.type }}'',
           ''  ports:'',
           ''    - port: {{ .Values.service.port }}'',
           ''      targetPort: http'',
           ''      protocol: TCP'',
           ''      name: http'',
           ''  selector:'',
           ''    {{- include "subchart.selectorLabels" . | nindent 4 }}''],
      rIDInfo = []\<rparr>\<close>

text \<open>The three cases of the test: the value \<^verbatim>\<open>want\<close> of each, and \<^verbatim>\<open>wantErr\<close>.\<close>

definition test_resolve_helm_want :: RenderedFiles where
  "test_resolve_helm_want = \<lparr>File = [test_helm_service_yaml]\<rparr>"

definition err_resolve_want :: RenderedFiles where
  "err_resolve_want = \<lparr>File = []\<rparr>"

definition test_with_dependecies_want :: RenderedFiles where
  "test_with_dependecies_want =
     \<lparr>File = [test_helm_subchart_serviceaccount_yaml, test_helm_subchart_service_yaml]\<rparr>"

section \<open>The Helm marker comment\<close>

text \<open>A natural number in decimal, as \<^verbatim>\<open>%d\<close> prints it.\<close>

function show_nat :: "nat \<Rightarrow> string" where
  "show_nat n =
     (if n < 10 then [''0123456789'' ! n]
      else show_nat (n div 10) @ [''0123456789'' ! (n mod 10)])"
  by pat_completeness auto
termination
  by (relation "measure id") auto

declare show_nat.simps [simp del]

text \<open>
  The marker comment \<^verbatim>\<open># KICS_HELM_ID_<n>:\<close> with the number \<open>n\<close>, in the form in which
  the tests write it (\<^verbatim>\<open>SplitID: "# KICS_HELM_ID_0:"\<close>).
\<close>

definition marker :: "nat \<Rightarrow> string" where
  "marker n = ''# KICS_HELM_ID_'' @ show_nat n @ '':''"

section \<open>The Helm resolver\<close>

text \<open>
  Modelled from the spec: \<^verbatim>\<open>Resolver.Resolve\<close> for a Helm chart. The resolver is not among
  the sources: \<^verbatim>\<open>service.go\<close> holds its call, and \<^verbatim>\<open>TestHelm_Resolve\<close> the results wanted
  for three paths. The specification says that \<^verbatim>\<open>Resolve\<close> takes a chart directory and
  renders its templates with a marker comment \<^verbatim>\<open># KICS_HELM_ID_<n>:\<close> injected per
  template; that it returns, per rendered file, the marker string as \<^verbatim>\<open>SplitID\<close> beside
  \<^verbatim>\<open>FileName\<close>, \<^verbatim>\<open>Content\<close>, \<^verbatim>\<open>OriginalData\<close> and \<^verbatim>\<open>IDInfo\<close>; that a missing or malformed chart
  gives an empty \<^verbatim>\<open>RenderedFiles\<close> and an error; and that a rendering error of one
  template is fatal for the whole chart.

  What the specification does not fix is left to two parameters. \<open>load_chart\<close> reads the
  chart directory: an error for a missing or malformed chart, the chart otherwise.
  \<open>render\<close> is the template engine: it fails, or gives the rendered files in the order
  in which they are returned, each with the number of the marker injected into its
  template. The texts of a rendered file, its name and its \<^verbatim>\<open>IDInfo\<close> are the engine's;
  the resolver sets \<^verbatim>\<open>SplitID\<close>. The kind only selects this resolver.
\<close>

definition Helm_Resolve ::
  "(string \<Rightarrow> error + 'c) \<Rightarrow> ('c \<Rightarrow> error + (nat \<times> RenderedFile) list)
     \<Rightarrow> string \<Rightarrow> FileKind \<Rightarrow> RenderedFiles \<times> error option" where
  "Helm_Resolve load_chart render filePath kind =
     (case load_chart filePath of
        Inl err \<Rightarrow> (\<lparr>File = []\<rparr>, Some err)
      | Inr chart \<Rightarrow>
          (case render chart of
             Inl err \<Rightarrow> (\<lparr>File = []\<rparr>, Some err)
           | Inr rendered \<Rightarrow>
               (\<lparr>File = map (\<lambda>(n, rfile). rfile\<lparr>rSplitID := marker n\<rparr>) rendered\<rparr>, None)))"

section \<open>The CloudFront policy\<close>

text \<open>
  The rule \<^verbatim>\<open>CxPolicy\<close> of the package \<^verbatim>\<open>Cx\<close> and its function
  \<^verbatim>\<open>checkMinProtocolVersion\<close> are written in Rego. A reference \<^verbatim>\<open>x.a[i].b\<close> is a path of keys into a
  value; a key is a field name or an index of a sequence. A reference that leaves the
  value is undefined (\<open>None\<close>), and an expression with an undefined part is undefined.
  A variable in a reference (\<^verbatim>\<open>[i]\<close>, \<^verbatim>\<open>[name]\<close>) ranges over the keys of the value it
  indexes.
\<close>

datatype key = Name string | Index nat

fun rego_index :: "json \<Rightarrow> key \<Rightarrow> json option" where
  "rego_index (JObj kvs) (Name k) = map_of kvs k"
| "rego_index (JArr xs) (Index n) = (if n < length xs then Some (xs ! n) else None)"
| "rego_index v k = None"

fun rego_ref :: "json \<Rightarrow> key list \<Rightarrow> json option" where
  "rego_ref v [] = Some v"
| "rego_ref v (k # ks) = (case rego_index v k of None \<Rightarrow> None | Some w \<Rightarrow> rego_ref w ks)"

fun rego_keys :: "json \<Rightarrow> key list" where
  "rego_keys (JObj kvs) = map Name (remdups (map fst kvs))"
| "rego_keys (JArr xs) = map Index [0..<length xs]"
| "rego_keys v = []"

text \<open>
  \<^verbatim>\<open>checkMinProtocolVersion("TLSv1.1") = true\<close> and
  \<^verbatim>\<open>checkMinProtocolVersion("TLSv1.2") = true\<close>: a function with two rules, undefined for
  every other argument.
\<close>

definition checkMinProtocolVersion :: "json \<Rightarrow> json option" where
  "checkMinProtocolVersion x =
     (if x = JStr ''TLSv1.1'' then Some (JBool True)
      else if x = JStr ''TLSv1.2'' then Some (JBool True)
      else None)"

text \<open>
  \<^verbatim>\<open>not e\<close> holds when \<^verbatim>\<open>e\<close> is undefined or false. In a negated call \<^verbatim>\<open>not f(x)\<close> the
  policy engine evaluates the argument \<^verbatim>\<open>x\<close> before the call and outside the negation:
  when \<^verbatim>\<open>x\<close> is an undefined reference, the body of the rule fails.
\<close>

definition rego_not :: "json option \<Rightarrow> bool" where
  "rego_not e = (e = None \<or> e = Some (JBool False))"

text \<open>\<^verbatim>\<open>sprintf\<close> with \<^verbatim>\<open>%s\<close>: a string is printed as it is; an index is an integer, which
  Go prints under \<^verbatim>\<open>%s\<close> as \<^verbatim>\<open>%!s(int=N)\<close>.\<close>

fun format_s :: "key \<Rightarrow> string" where
  "format_s (Name s) = s"
| "format_s (Index n) = ''%!s(int='' @ show_nat n @ '')''"

record result =
  documentId :: json
  searchKey :: string
  issueType :: string
  keyExpectedValue :: string
  keyActualValue :: string

text \<open>
  The body of \<^verbatim>\<open>CxPolicy[result]\<close> for one binding of its variables \<^verbatim>\<open>i\<close> and \<^verbatim>\<open>name\<close>:
  the result, or \<open>None\<close> when an expression of the body fails or is undefined.
\<close>

definition CxPolicy_body :: "json \<Rightarrow> key \<Rightarrow> key \<Rightarrow> result option" where
  "CxPolicy_body input i name =
     (case rego_ref input [Name ''document'', i, Name ''resource'',
                           Name ''aws_cloudfront_distribution'', name] of
        None \<Rightarrow> None
      | Some resource \<Rightarrow>
          if rego_ref resource [Name ''viewer_certificate'',
                                Name ''cloudfront_default_certificate''] \<noteq> Some (JBool False)
          then None
          else (case rego_ref resource [Name ''viewer_certificate'',
                                        Name ''minimum_protocol_version''] of
            None \<Rightarrow> None
          | Some version \<Rightarrow>
              if \<not> rego_not (checkMinProtocolVersion version) then None
              else (case rego_ref input [Name ''document'', i, Name ''id''] of
                  None \<Rightarrow> None
                | Some d \<Rightarrow>
                    Some \<lparr>documentId = d,
                          searchKey = ''resource.aws_cloudfront_distribution['' @ format_s name
                            @ ''].viewer_certificate.minimum_protocol_version'',
                          issueType = ''IncorrectValue'',
                          keyExpectedValue = ''resource.aws_cloudfront_distribution[''
                            @ format_s name
                            @ ''].viewer_certificate.minimum_protocol_version is TLSv1.1 or TLSv1.2'',
                          keyActualValue = ''resource.aws_cloudfront_distribution[''
                            @ format_s name
                            @ ''].viewer_certificate.minimum_protocol_version isn't TLSv1.1 or TLSv1.2''\<rparr>)))"

text \<open>
  \<^verbatim>\<open>CxPolicy\<close> is the set of the results of all bindings: \<^verbatim>\<open>i\<close> over the keys of
  \<^verbatim>\<open>input.document\<close>, \<^verbatim>\<open>name\<close> over the keys of
  \<^verbatim>\<open>input.document[i].resource.aws_cloudfront_distribution\<close>. The list enumerates the
  set: a result that several bindings give is listed once.
\<close>

definition CxPolicy :: "json \<Rightarrow> result list" where
  "CxPolicy input =
     remdups (concat (map (\<lambda>i.
       concat (map (\<lambda>name.
           (case CxPolicy_body input i name of None \<Rightarrow> [] | Some r \<Rightarrow> [r]))
         (case rego_ref input [Name ''document'', i, Name ''resource'',
                               Name ''aws_cloudfront_distribution''] of
            None \<Rightarrow> [] | Some rs \<Rightarrow> rego_keys rs)))
       (case rego_ref input [Name ''document''] of None \<Rightarrow> [] | Some ds \<Rightarrow> rego_keys ds)))"
section \<open>A service for the examples\<close>

text \<open>
  One concrete service, for the examples below. Its source provider walks the list
  \<open>sources\<close>; files are read with \<^const>\<open>full_Read\<close>; the parser rejects the file names in
  \<open>unparsable\<close> and finds one empty document in any other file; every path is a Helm
  chart, and \<open>resolver\<close> is its resolver; the storage is the list of the files saved, and
  \<open>save_err\<close> and \<open>vuln_err\<close> are what its two \<open>Save\<close> methods return; the inspector finds
  nothing.
\<close>

definition example_service ::
  "string source list \<Rightarrow> (string \<Rightarrow> FileKind \<Rightarrow> RenderedFiles \<times> error option)
     \<Rightarrow> string list
     \<Rightarrow> error option \<Rightarrow> error option \<Rightarrow> (FileMetadata list, string, string) Service" where
  "example_service sources resolver unparsable save_err vuln_err =
     \<lparr>GetSources = walk_sources sources,
      GetBasePath = ''.'',
      rc_Read = full_Read,
      SupportedExtensions = [''.yaml''],
      Parse = (\<lambda>filename content.
        if filename \<in> set unparsable then Inl (errors_New ''yaml: invalid'')
        else Inr ([JObj []], KindKubernetes)),
      json_Marshal = (\<lambda>document. None),
      uuid_New = (\<lambda>k. replicate (Suc k) CHR ''u''),
      GetType = (\<lambda>filename. KindHELM),
      Resolve = resolver,
      SaveFile = (\<lambda>sto file. (save_err, if save_err = None then sto @ [file] else sto)),
      SaveVulnerabilities = (\<lambda>sto vulnerabilities. (vuln_err, sto)),
      Inspect = (\<lambda>scanID fs hideProgress basePath. ([], None))\<rparr>"

text \<open>The state in which \<^verbatim>\<open>StartScan\<close> begins: \<^verbatim>\<open>var files model.FileMetadatas\<close>.\<close>

definition new_scan :: "FileMetadata list scan_state" where
  "new_scan = \<lparr>files = [], storage = [], found = 0, parsed = 0, uuids = 0\<rparr>"

text \<open>
  Four instances whose resolver is a stub that answers every call with a value that
  \<^verbatim>\<open>TestHelm_Resolve\<close> wants: a service where everything succeeds, one whose \<^verbatim>\<open>SaveFile\<close>
  fails and one whose \<^verbatim>\<open>SaveVulnerabilities\<close> fails, all three with the rendered chart
  \<^verbatim>\<open>test_helm\<close>, the last two scanning it; and a service with the rendered chart
  \<^verbatim>\<open>test_helm_subchart\<close> whose parser rejects the second rendered file.
\<close>

definition healthy_service :: "(FileMetadata list, string, string) Service" where
  "healthy_service =
     example_service [] (\<lambda>filename kind. (test_resolve_helm_want, None)) [] None None"

definition unparsable_subchart_service :: "(FileMetadata list, string, string) Service" where
  "unparsable_subchart_service =
     example_service [] (\<lambda>filename kind. (test_with_dependecies_want, None))
       [''../../../test/fixtures/test_helm_subchart/charts/subchart/templates/service.yaml'']
       None None"

definition failing_SaveFile_service :: "(FileMetadata list, string, string) Service" where
  "failing_SaveFile_service =
     example_service [SourceTemplate ''../../../test/fixtures/test_helm'']
       (\<lambda>filename kind. (test_resolve_helm_want, None)) []
       (Some (errors_New ''storage unavailable'')) None"

definition failing_SaveVulnerabilities_service ::
  "(FileMetadata list, string, string) Service" where
  "failing_SaveVulnerabilities_service =
     example_service [SourceTemplate ''../../../test/fixtures/test_helm'']
       (\<lambda>filename kind. (test_resolve_helm_want, None)) []
       None (Some (errors_New ''storage unavailable''))"

text \<open>
  Inputs of the Helm resolver. A directory is read as a chart (\<open>a_chart\<close>) or holds none
  (\<open>no_chart\<close>). \<open>render_test_helm_subchart\<close> is an engine that renders a chart to the two
  files \<^verbatim>\<open>TestHelm_Resolve\<close> wants for the chart \<^verbatim>\<open>test_helm_subchart\<close>, the template of
  the chart itself, with the marker 1, before the template of its subchart, with the
  marker 0; \<open>render_fails\<close> is an engine that fails.
\<close>

definition a_chart :: "string \<Rightarrow> error + unit" where
  "a_chart filePath = Inr ()"

definition no_chart :: "string \<Rightarrow> error + unit" where
  "no_chart filePath = Inl (errors_New ''Chart.yaml file is missing'')"

definition render_test_helm_subchart :: "unit \<Rightarrow> error + (nat \<times> RenderedFile) list" where
  "render_test_helm_subchart chart =
     Inr [(1, test_helm_subchart_serviceaccount_yaml), (0, test_helm_subchart_service_yaml)]"

definition render_fails :: "unit \<Rightarrow> error + (nat \<times> RenderedFile) list" where
  "render_fails chart = Inl (errors_New ''template: parse error'')"

text \<open>
  Three instances with the Helm resolver: a service that resolves the chart
  \<^verbatim>\<open>test_helm_subchart\<close>, one that finds no chart, and one whose engine fails.
\<close>

definition helm_subchart_service :: "(FileMetadata list, string, string) Service" where
  "helm_subchart_service =
     example_service [] (Helm_Resolve a_chart render_test_helm_subchart) [] None None"

definition no_chart_service :: "(FileMetadata list, string, string) Service" where
  "no_chart_service =
     example_service [] (Helm_Resolve no_chart render_test_helm_subchart) [] None None"

definition failing_render_service :: "(FileMetadata list, string, string) Service" where
  "failing_render_service =
     example_service [] (Helm_Resolve a_chart render_fails) [] None None"

text \<open>
  Inputs of the CloudFront policy: one document, with the identifier \<^verbatim>\<open>1\<close>, that
  declares one \<^verbatim>\<open>aws_cloudfront_distribution\<close> whose viewer certificate is not the
  default certificate and has the given \<^verbatim>\<open>minimum_protocol_version\<close>.
\<close>

definition cloudfront_input :: "string \<Rightarrow> string \<Rightarrow> json" where
  "cloudfront_input name version =
     JObj [(''document'',
       JArr [JObj [(''id'', JStr ''1''),
                   (''resource'',
                    JObj [(''aws_cloudfront_distribution'',
                      JObj [(name,
                        JObj [(''enabled'', JBool True),
                              (''viewer_certificate'',
                               JObj [(''cloudfront_default_certificate'', JBool False),
                                     (''minimum_protocol_version'', JStr version)])])])])]])]"


text \<open>
  The same document with a distribution whose viewer certificate has no
  \<^verbatim>\<open>minimum_protocol_version\<close>, and the first document without its identifier.
\<close>

definition cloudfront_input_without_version :: "string \<Rightarrow> json" where
  "cloudfront_input_without_version name =
     JObj [(''document'',
       JArr [JObj [(''id'', JStr ''1''),
                   (''resource'',
                    JObj [(''aws_cloudfront_distribution'',
                      JObj [(name,
                        JObj [(''enabled'', JBool True),
                              (''viewer_certificate'',
                               JObj [(''cloudfront_default_certificate'', JBool False)])])])])]])]"

definition cloudfront_input_without_id :: "string \<Rightarrow> string \<Rightarrow> json" where
  "cloudfront_input_without_id name version =
     JObj [(''document'',
       JArr [JObj [(''resource'',
                    JObj [(''aws_cloudfront_distribution'',
                      JObj [(name,
                        JObj [(''enabled'', JBool True),
                              (''viewer_certificate'',
                               JObj [(''cloudfront_default_certificate'', JBool False),
                                     (''minimum_protocol_version'', JStr version)])])])])]])]"
section \<open>Properties of getContent\<close>

lemma getContent_loop_bound:
  "(\<And>r n. length (fst (fst (Read r n))) \<le> n) \<Longrightarrow>
     length (snd (getContent_loop Read rc m content))
       \<le> length content + nat (m + 1) * chunkSize"
proof (induction Read rc m content rule: getContent_loop.induct)
  case (1 Read rc maxSizeMB content)
  show ?case
  proof (cases "maxSizeMB < 0")
    case True
    then show ?thesis by (simp add: getContent_loop.simps)
  next
    case False
    obtain d e rc' where r: "Read rc chunkSize = ((d, e), rc')"
      by (metis surj_pair)
    show ?thesis
    proof (cases e)
      case (Some err)
      with False r show ?thesis
        by (simp add: getContent_loop.simps [of Read rc maxSizeMB content])
    next
      case None
      have d: "length d \<le> chunkSize"
        using "1.prems" [of rc chunkSize] r by simp
      have step: "getContent_loop Read rc maxSizeMB content
                    = getContent_loop Read rc' (maxSizeMB - 1) (content @ d)"
        using False r None by (simp add: getContent_loop.simps [of Read rc maxSizeMB content])
      have "length (snd (getContent_loop Read rc' (maxSizeMB - 1) (content @ d)))
              \<le> length (content @ d) + nat (maxSizeMB - 1 + 1) * chunkSize"
        using "1.IH" [OF False r [symmetric] refl None "1.prems"] .
      moreover have "nat (maxSizeMB + 1) = Suc (nat maxSizeMB)"
        using False by simp
      ultimately show ?thesis
        using d step by simp
    qed
  qed
qed

lemma getContent_loop_full:
  "getContent_loop full_Read bs (int k - 1) content =
     (if length bs \<le> (k - 1) * chunkSize \<and> 0 < k then (Break, content @ bs)
      else (LimitExceeded, content @ take (k * chunkSize) bs))"
proof (induction k arbitrary: bs content)
  case 0
  show ?case by (simp add: getContent_loop.simps)
next
  case (Suc k)
  show ?case
  proof (cases "bs = []")
    case True
    then show ?thesis
      by (subst getContent_loop.simps) (simp add: full_Read_def)
  next
    case False
    have c: "0 < chunkSize" by (simp add: chunkSize_def)
    have step: "getContent_loop full_Read bs (int (Suc k) - 1) content
                 = getContent_loop full_Read (drop chunkSize bs) (int k - 1)
                     (content @ take chunkSize bs)"
      using False by (subst getContent_loop.simps) (simp add: full_Read_def)
    show ?thesis
    proof (cases k)
      case 0
      with False c step Suc.IH [of "drop chunkSize bs" "content @ take chunkSize bs"]
      show ?thesis by simp
    next
      case (Suc j)
      have tk: "take chunkSize bs @ take (Suc j * chunkSize) (drop chunkSize bs)
                  = take (Suc (Suc j) * chunkSize) bs"
        by (simp add: take_add [symmetric] add.commute)
      have "length (drop chunkSize bs) \<le> j * chunkSize \<longleftrightarrow> length bs \<le> Suc j * chunkSize"
        by auto
      with Suc step Suc.IH [of "drop chunkSize bs" "content @ take chunkSize bs"] tk
      show ?thesis by (simp del: mult_Suc)
    qed
  qed
qed

text \<open>
  Where \<^verbatim>\<open>getContent\<close> keeps its limit. For a reader that fills the buffer on every read
  until the input is used up and then reports \<^verbatim>\<open>io.EOF\<close>, it fails, with the error
  \<^verbatim>\<open>file size limit exceeded\<close> and empty content, exactly when the input is larger than
  5 MiB, and returns every input of at most 5 MiB in full. For every reader that writes
  no more than the buffer holds, the content accumulated when the loop is left,
  rejected or not, is at most 6 MiB.
\<close>

lemma getContent_full_reads:
  "getContent full_Read bs =
     (if length bs \<le> 5 * chunkSize then (bs, None)
      else ([], Some (errors_New ''file size limit exceeded'')))"
proof -
  have "getContent_loop full_Read bs (int 6 - 1) [] =
     (if length bs \<le> (6 - 1) * chunkSize \<and> 0 < (6::nat) then (Break, [] @ bs)
      else (LimitExceeded, [] @ take (6 * chunkSize) bs))"
    by (rule getContent_loop_full)
  then show ?thesis
    by (simp add: getContent_def)
qed

lemma getContent_accumulates_at_most_6_MiB:
  assumes "\<And>r n. length (fst (fst (Read r n))) \<le> n"
  shows "length (snd (getContent_loop Read rc 5 [])) \<le> 6 * chunkSize"
proof -
  have "length (snd (getContent_loop Read rc 5 []))
          \<le> length ([]::string) + nat (5 + 1) * chunkSize"
    using assms by (intro getContent_loop_bound) simp
  then show ?thesis
    by simp
qed

text \<open>
  C1. The claim, like the comment at \<^verbatim>\<open>maxSizeMB := 5 // Max size of file in MBs\<close>, limits
  the size of the input; the loop decrements \<^verbatim>\<open>maxSizeMB\<close> once per \<^verbatim>\<open>Read\<close>, however few
  bytes the read delivered. A reader that delivers the seven bytes \<^verbatim>\<open>abcdefg\<close> one byte
  per \<^verbatim>\<open>Read\<close> and then \<^verbatim>\<open>io.EOF\<close> has an input far below 5 MiB, and every read fits the
  buffer; yet the seventh iteration finds \<^verbatim>\<open>maxSizeMB = -1\<close>, and \<^verbatim>\<open>getContent\<close> returns
  the error \<^verbatim>\<open>file size limit exceeded\<close> and empty content where the claim promises the
  seven bytes.
\<close>

theorem getContent_short_reads_rejected:
  "length (concat (map fst [(''a'', None), (''b'', None), (''c'', None), (''d'', None),
       (''e'', None), (''f'', None), (''g'', None :: error option)])) \<le> 5 * chunkSize
   \<and> map (\<lambda>d. length (fst d)) [(''a'', None), (''b'', None), (''c'', None),
       (''d'', None), (''e'', None), (''f'', None), (''g'', None :: error option)]
       = [1, 1, 1, 1, 1, 1, 1]
   \<and> getContent script_Read [(''a'', None), (''b'', None), (''c'', None), (''d'', None),
       (''e'', None), (''f'', None), (''g'', None)]
       = ([], Some (errors_New ''file size limit exceeded''))
   \<and> getContent script_Read [(''a'', None), (''b'', None), (''c'', None), (''d'', None),
       (''e'', None), (''f'', None), (''g'', None)]
       \<noteq> (''abcdefg'', None)"
  by (simp add: getContent_def getContent_loop.simps script_Read_def chunkSize_def)
section \<open>Properties of the sinks\<close>

lemma files_TrackFileFound [simp]: "files (TrackFileFound st) = files st"
  by (simp add: TrackFileFound_def)

lemma storage_TrackFileFound [simp]: "storage (TrackFileFound st) = storage st"
  by (simp add: TrackFileFound_def)

lemma files_new_uuid: "new_uuid s st = (uid, st1) \<Longrightarrow> files st1 = files st"
  by (auto simp: new_uuid_def)

lemma in_files_saveToFile:
  "x \<in> set (files (saveToFile s file st)) \<Longrightarrow> x \<in> set (files st) \<or> x = file"
  by (auto simp: saveToFile_def TrackFileParse_def split: prod.splits option.splits)

lemma in_files_parse_documents:
  "x \<in> set (files (snd (parse_documents s scanID filename content kind documents (err, st))))
   \<Longrightarrow> x \<in> set (files st)
       \<or> (OriginalData x = content \<and> Content x = [] \<and> HelmID x = [] \<and> IDInfo x = []
           \<and> Kind x = kind \<and> FileName x = filename \<and> ScanID x = scanID)"
proof (induction documents arbitrary: err st)
  case Nil
  then show ?case by simp
next
  case (Cons document documents)
  show ?case
  proof (cases "json_Marshal s document")
    case (Some e)
    with Cons show ?thesis by simp
  next
    case None
    obtain uid st1 where u: "new_uuid s st = (uid, st1)"
      by (cases "new_uuid s st")
    let ?file = "\<lparr>ID = uid, ScanID = scanID, Document = document, OriginalData = content,
                   Kind = kind, FileName = filename, Content = [], HelmID = [],
                   IDInfo = []\<rparr>"
    from Cons.prems None u
    have "x \<in> set (files (snd (parse_documents s scanID filename content kind documents
                                 (None, saveToFile s ?file st1))))"
      by simp
    from Cons.IH [OF this]
    show ?thesis
      using in_files_saveToFile [of x s ?file st1] files_new_uuid [OF u] by auto
  qed
qed

lemma in_files_resolve_documents:
  "x \<in> set (files (resolve_documents s scanID kind rfile documents st))
   \<Longrightarrow> x \<in> set (files st)
       \<or> (HelmID x = rSplitID rfile \<and> IDInfo x = rIDInfo rfile \<and> Kind x = kind
           \<and> Content x = rContent rfile \<and> OriginalData x = rOriginalData rfile
           \<and> FileName x = rFileName rfile \<and> ScanID x = scanID)"
proof (induction documents arbitrary: st)
  case Nil
  then show ?case by simp
next
  case (Cons document documents)
  show ?case
  proof (cases "json_Marshal s document")
    case (Some e)
    with Cons show ?thesis by simp
  next
    case None
    obtain uid st1 where u: "new_uuid s st = (uid, st1)"
      by (cases "new_uuid s st")
    let ?file = "\<lparr>ID = uid, ScanID = scanID, Document = document,
                   OriginalData = rOriginalData rfile, Kind = kind,
                   FileName = rFileName rfile, Content = rContent rfile,
                   HelmID = rSplitID rfile, IDInfo = rIDInfo rfile\<rparr>"
    from Cons.prems None u
    have "x \<in> set (files (resolve_documents s scanID kind rfile documents
                            (saveToFile s ?file st1)))"
      by simp
    from Cons.IH [OF this]
    show ?thesis
      using in_files_saveToFile [of x s ?file st1] files_new_uuid [OF u] by auto
  qed
qed

lemma in_files_resolve_files:
  "x \<in> set (files (snd (resolve_files s scanID kind rfiles st)))
   \<Longrightarrow> x \<in> set (files st)
       \<or> (\<exists>rfile \<in> set rfiles.
             HelmID x = rSplitID rfile \<and> IDInfo x = rIDInfo rfile \<and> Kind x = kind
             \<and> Content x = rContent rfile \<and> OriginalData x = rOriginalData rfile
             \<and> FileName x = rFileName rfile \<and> ScanID x = scanID)"
proof (induction rfiles arbitrary: st)
  case Nil
  then show ?case by simp
next
  case (Cons rfile rfiles)
  show ?case
  proof (cases "Parse s (rFileName rfile) (rContent rfile)")
    case (Inl err)
    with Cons.prems show ?thesis by simp
  next
    case (Inr dk)
    obtain documents k where dk: "dk = (documents, k)"
      by (cases dk)
    from Cons.prems Inr dk
    have "x \<in> set (files (snd (resolve_files s scanID kind rfiles
                                 (resolve_documents s scanID kind rfile documents st))))"
      by simp
    from Cons.IH [OF this]
    show ?thesis
      using in_files_resolve_documents [of x s scanID kind rfile documents st] by auto
  qed
qed

lemma resolve_files_parse_failure:
  "\<forall>rf \<in> set pre. \<exists>ds. Parse s (rFileName rf) (rContent rf) = Inr ds \<Longrightarrow>
   Parse s (rFileName bad) (rContent bad) = Inl err \<Longrightarrow>
   resolve_files s scanID kind (pre @ bad # post) st
     = (Some (Wrapped err ''failed to parse file content''),
        snd (resolve_files s scanID kind pre st))"
proof (induction pre arbitrary: st)
  case Nil
  then show ?case by simp
next
  case (Cons rf pre)
  from Cons.prems obtain documents k
    where p: "Parse s (rFileName rf) (rContent rf) = Inr (documents, k)"
    by force
  from Cons.prems have "\<forall>rf \<in> set pre. \<exists>ds. Parse s (rFileName rf) (rContent rf) = Inr ds"
    by simp
  from Cons.IH [OF this Cons.prems(2)] p show ?case
    by simp
qed

lemma resolve_files_no_error:
  "\<forall>rf \<in> set rfiles. \<exists>ds. Parse s (rFileName rf) (rContent rf) = Inr ds \<Longrightarrow>
   fst (resolve_files s scanID kind rfiles st) = None"
proof (induction rfiles arbitrary: st)
  case Nil
  then show ?case by simp
next
  case (Cons rf rfiles)
  from Cons.prems obtain documents k
    where p: "Parse s (rFileName rf) (rContent rf) = Inr (documents, k)"
    by force
  from Cons.prems have "\<forall>rf \<in> set rfiles. \<exists>ds. Parse s (rFileName rf) (rContent rf) = Inr ds"
    by simp
  from Cons.IH [OF this] p show ?case
    by simp
qed


section \<open>Properties of the Helm resolver\<close>

lemma show_nat_0: "show_nat 0 = ''0''"
  by (subst show_nat.simps) simp

lemma show_nat_1: "show_nat (Suc 0) = ''1''"
  by (subst show_nat.simps) simp

lemma marker_0: "marker 0 = ''# KICS_HELM_ID_0:''"
  by (simp add: marker_def show_nat_0)

lemma marker_1: "marker (Suc 0) = ''# KICS_HELM_ID_1:''"
  by (simp add: marker_def show_nat_1)

lemma marker_not_empty: "marker n \<noteq> []"
  by (simp add: marker_def)

lemma Helm_Resolve_SplitID:
  "rfile \<in> set (File (fst (Helm_Resolve load_chart render filePath kind)))
   \<Longrightarrow> \<exists>n. rSplitID rfile = marker n"
  by (auto simp: Helm_Resolve_def split: sum.splits)

text \<open>
  On the inputs above the resolver gives what \<^verbatim>\<open>TestHelm_Resolve\<close> wants: the two rendered
  files of the chart \<^verbatim>\<open>test_helm_subchart\<close> and no error (the case
  \<^verbatim>\<open>test_with_dependecies\<close>), and no file and an error where there is no chart (the case
  \<^verbatim>\<open>err_resolve\<close>).
\<close>

lemma Helm_Resolve_test_with_dependecies:
  "Helm_Resolve a_chart render_test_helm_subchart filePath kind
     = (test_with_dependecies_want, None)"
  by (simp add: Helm_Resolve_def a_chart_def render_test_helm_subchart_def
      test_with_dependecies_want_def marker_0 marker_1
      test_helm_subchart_serviceaccount_yaml_def test_helm_subchart_service_yaml_def)

lemma Helm_Resolve_err_resolve:
  "Helm_Resolve no_chart render filePath kind
     = (err_resolve_want, Some (errors_New ''Chart.yaml file is missing''))"
  by (simp add: Helm_Resolve_def no_chart_def err_resolve_want_def)


section \<open>Properties of the scan\<close>

text \<open>
  C5, as amended. \<^verbatim>\<open>Resolve\<close> on a missing or malformed chart, and on a chart whose
  rendering fails, returns an empty \<^verbatim>\<open>RenderedFiles\<close> and the error. When \<^verbatim>\<open>Resolve\<close>
  returns an error, whatever rendered files come with it, the resolve sink returns
  that error wrapped and the scan's list of files gains no entry. When \<^verbatim>\<open>Resolve\<close>
  succeeds and the parser rejects one rendered file, the sink returns the parser's
  error wrapped and leaves the scan in the state reached after the rendered files
  before the rejected one: nothing of the rejected file or of a later one is added,
  and what the earlier ones added stays.
\<close>

theorem resolve_sink_failure:
  "(load_chart filePath = Inl e
      \<or> (load_chart filePath = Inr chart \<and> render chart = Inl e) \<longrightarrow>
      Helm_Resolve load_chart render filePath kind = (\<lparr>File = []\<rparr>, Some e))
   \<and> (GetType s filename \<noteq> KindCOMMON
      \<and> Resolve s filename (GetType s filename) = (resFiles, Some err) \<longrightarrow>
      resolve_sink s scanID filename st
        = (Some (Wrapped err ''failed to render file content''), TrackFileFound st)
      \<and> files (snd (resolve_sink s scanID filename st)) = files st)
   \<and> (GetType s filename \<noteq> KindCOMMON
      \<and> Resolve s filename (GetType s filename) = (\<lparr>File = pre @ bad # post\<rparr>, None)
      \<and> (\<forall>rf \<in> set pre. \<exists>ds. Parse s (rFileName rf) (rContent rf) = Inr ds)
      \<and> Parse s (rFileName bad) (rContent bad) = Inl err' \<longrightarrow>
      resolve_sink s scanID filename st
        = (Some (Wrapped err' ''failed to parse file content''),
           snd (resolve_files s scanID (GetType s filename) pre (TrackFileFound st))))"
proof (intro conjI impI)
  assume "load_chart filePath = Inl e
      \<or> (load_chart filePath = Inr chart \<and> render chart = Inl e)"
  then show "Helm_Resolve load_chart render filePath kind = (\<lparr>File = []\<rparr>, Some e)"
    by (auto simp: Helm_Resolve_def)
next
  assume "GetType s filename \<noteq> KindCOMMON
      \<and> Resolve s filename (GetType s filename) = (resFiles, Some err)"
  then show "resolve_sink s scanID filename st
        = (Some (Wrapped err ''failed to render file content''), TrackFileFound st)"
    by (simp add: resolve_sink_def)
  then show "files (snd (resolve_sink s scanID filename st)) = files st"
    by simp
next
  assume "GetType s filename \<noteq> KindCOMMON
      \<and> Resolve s filename (GetType s filename) = (\<lparr>File = pre @ bad # post\<rparr>, None)
      \<and> (\<forall>rf \<in> set pre. \<exists>ds. Parse s (rFileName rf) (rContent rf) = Inr ds)
      \<and> Parse s (rFileName bad) (rContent bad) = Inl err'"
  then show "resolve_sink s scanID filename st
        = (Some (Wrapped err' ''failed to parse file content''),
           snd (resolve_files s scanID (GetType s filename) pre (TrackFileFound st)))"
    by (simp add: resolve_sink_def resolve_files_parse_failure)
qed

text \<open>
  Witness for C5: where there is no chart, and where the engine fails, the resolver
  returns no file and the error, and the sink of a service with that resolver returns
  the error wrapped and adds no file; in the rendered chart \<^verbatim>\<open>test_helm_subchart\<close>,
  whose second file the parser rejects, the sink stops in the state reached after the
  first.
\<close>

theorem resolve_sink_failure_witness:
  "Helm_Resolve no_chart render_test_helm_subchart
       ''../../../test/fixtures/all_auth_users_get_read_access'' KindHELM
     = (\<lparr>File = []\<rparr>, Some (errors_New ''Chart.yaml file is missing''))
   \<and> Helm_Resolve a_chart render_fails ''../../../test/fixtures/test_helm'' KindHELM
     = (\<lparr>File = []\<rparr>, Some (errors_New ''template: parse error''))
   \<and> resolve_sink no_chart_service ''console''
       ''../../../test/fixtures/all_auth_users_get_read_access'' new_scan
     = (Some (Wrapped (errors_New ''Chart.yaml file is missing'')
                ''failed to render file content''),
        TrackFileFound new_scan)
   \<and> files (snd (resolve_sink no_chart_service ''console''
                   ''../../../test/fixtures/all_auth_users_get_read_access'' new_scan)) = []
   \<and> files (snd (resolve_sink failing_render_service ''console''
                   ''../../../test/fixtures/test_helm'' new_scan)) = []
   \<and> resolve_sink unparsable_subchart_service ''console''
       ''../../../test/fixtures/test_helm_subchart'' new_scan
     = (Some (Wrapped (errors_New ''yaml: invalid'') ''failed to parse file content''),
        snd (resolve_files unparsable_subchart_service ''console'' KindHELM
               [test_helm_subchart_serviceaccount_yaml] (TrackFileFound new_scan)))"
  using resolve_sink_failure [where load_chart = no_chart
        and filePath = "''../../../test/fixtures/all_auth_users_get_read_access''"
        and e = "errors_New ''Chart.yaml file is missing''"
        and render = render_test_helm_subchart and kind = KindHELM
        and s = no_chart_service
        and filename = "''../../../test/fixtures/all_auth_users_get_read_access''"
        and resFiles = "\<lparr>File = []\<rparr>"
        and err = "errors_New ''Chart.yaml file is missing''"
        and scanID = "''console''" and st = new_scan
        and pre = "[]" and bad = test_helm_subchart_service_yaml and post = "[]"
        and err' = "errors_New ''yaml: invalid''"]
    resolve_sink_failure [where load_chart = a_chart
        and filePath = "''../../../test/fixtures/test_helm''"
        and e = "errors_New ''template: parse error''" and chart = "()"
        and render = render_fails and kind = KindHELM
        and s = failing_render_service
        and filename = "''../../../test/fixtures/test_helm''"
        and resFiles = "\<lparr>File = []\<rparr>"
        and err = "errors_New ''template: parse error''"
        and scanID = "''console''" and st = new_scan
        and pre = "[]" and bad = test_helm_subchart_service_yaml and post = "[]"
        and err' = "errors_New ''yaml: invalid''"]
    resolve_sink_failure [where load_chart = a_chart
        and filePath = "''../../../test/fixtures/test_helm_subchart''"
        and e = "errors_New ''template: parse error''" and chart = "()"
        and render = render_fails and kind = KindHELM
        and s = unparsable_subchart_service
        and filename = "''../../../test/fixtures/test_helm_subchart''"
        and resFiles = "\<lparr>File = []\<rparr>"
        and err = "errors_New ''template: parse error''"
        and scanID = "''console''" and st = new_scan
        and pre = "[test_helm_subchart_serviceaccount_yaml]"
        and bad = test_helm_subchart_service_yaml and post = "[]"
        and err' = "errors_New ''yaml: invalid''"]
  by (simp add: unparsable_subchart_service_def no_chart_service_def
        failing_render_service_def example_service_def Helm_Resolve_def no_chart_def
        a_chart_def render_fails_def new_scan_def test_with_dependecies_want_def
        test_helm_subchart_serviceaccount_yaml_def test_helm_subchart_service_yaml_def
        TrackFileFound_def)

text \<open>
  Counterexample to C5 as stated: the chart \<^verbatim>\<open>test_helm_subchart\<close> renders to two files
  and the parser rejects the second. The sink returns an error, but the scan, which
  began with no file, has gained the file of the first rendered template.
\<close>

theorem resolve_sink_partial_counterexample:
  "fst (resolve_sink unparsable_subchart_service ''console''
          ''../../../test/fixtures/test_helm_subchart'' new_scan)
     = Some (Wrapped (errors_New ''yaml: invalid'') ''failed to parse file content'')
   \<and> files new_scan = []
   \<and> map FileName (files (snd (resolve_sink unparsable_subchart_service ''console''
                                 ''../../../test/fixtures/test_helm_subchart'' new_scan)))
     = [''../../../test/fixtures/test_helm_subchart/templates/serviceaccount.yaml'']"
  by (simp add: resolve_sink_def unparsable_subchart_service_def example_service_def
        new_scan_def test_with_dependecies_want_def
        test_helm_subchart_serviceaccount_yaml_def test_helm_subchart_service_yaml_def
        saveToFile_def new_uuid_def TrackFileParse_def TrackFileFound_def)
text \<open>
  C7, as amended. A file the resolve sink adds to the scan has the kind that
  \<^verbatim>\<open>GetType\<close> gave the path, and it is made of one of the rendered files \<^verbatim>\<open>Resolve\<close>
  returned: its \<^verbatim>\<open>HelmID\<close>, \<^verbatim>\<open>IDInfo\<close>, \<^verbatim>\<open>Content\<close>, \<^verbatim>\<open>OriginalData\<close> and \<^verbatim>\<open>FileName\<close> are the
  \<^verbatim>\<open>SplitID\<close>, \<^verbatim>\<open>IDInfo\<close>, \<^verbatim>\<open>Content\<close>, \<^verbatim>\<open>OriginalData\<close> and \<^verbatim>\<open>FileName\<close> of that same rendered
  file, copied as they are. With the Helm resolver the \<^verbatim>\<open>HelmID\<close> is a marker comment,
  and so not empty; the \<^verbatim>\<open>IDInfo\<close> is empty when the rendered file's is.
\<close>

theorem resolve_sink_helm_fields:
  "x \<in> set (files (snd (resolve_sink s scanID filename st))) \<Longrightarrow> x \<notin> set (files st) \<Longrightarrow>
     Kind x = GetType s filename
     \<and> (\<exists>rfile \<in> set (File (fst (Resolve s filename (GetType s filename)))).
           HelmID x = rSplitID rfile \<and> IDInfo x = rIDInfo rfile
           \<and> Content x = rContent rfile \<and> OriginalData x = rOriginalData rfile
           \<and> FileName x = rFileName rfile)
     \<and> (Resolve s = Helm_Resolve load_chart render \<longrightarrow>
           HelmID x \<noteq> [] \<and> (\<exists>n. HelmID x = marker n))"
proof -
  assume x: "x \<in> set (files (snd (resolve_sink s scanID filename st)))"
    and new: "x \<notin> set (files st)"
  obtain resFiles e where r: "Resolve s filename (GetType s filename) = (resFiles, e)"
    by (cases "Resolve s filename (GetType s filename)")
  have "GetType s filename \<noteq> KindCOMMON \<and> e = None"
    using x new r by (auto simp: resolve_sink_def split: if_splits option.splits)
  with x r have "x \<in> set (files (snd (resolve_files s scanID (GetType s filename)
                                        (File resFiles) (TrackFileFound st))))"
    by (simp add: resolve_sink_def)
  from in_files_resolve_files [OF this] new r
  obtain rfile where rfile: "rfile \<in> set (File (fst (Resolve s filename (GetType s filename))))"
    and fields: "HelmID x = rSplitID rfile \<and> IDInfo x = rIDInfo rfile
           \<and> Kind x = GetType s filename
           \<and> Content x = rContent rfile \<and> OriginalData x = rOriginalData rfile
           \<and> FileName x = rFileName rfile"
    by auto
  have "HelmID x \<noteq> [] \<and> (\<exists>n. HelmID x = marker n)"
    if "Resolve s = Helm_Resolve load_chart render"
  proof -
    from rfile that
    have "rfile \<in> set (File (fst (Helm_Resolve load_chart render filename
                                      (GetType s filename))))"
      by simp
    then obtain n where "rSplitID rfile = marker n"
      using Helm_Resolve_SplitID by blast
    with fields show ?thesis
      by (auto simp: marker_not_empty)
  qed
  with rfile fields show ?thesis
    by blast
qed

text \<open>
  Witness for C7: the chart \<^verbatim>\<open>test_helm_subchart\<close>, which the Helm resolver renders to two
  files. The sink adds two files of the kind Helm; the second has the marker, the
  texts and the name of the second rendered file, not those of the first.
\<close>

theorem resolve_sink_helm_fields_witness:
  "map HelmID (files (snd (resolve_sink helm_subchart_service ''console''
                 ''../../../test/fixtures/test_helm_subchart'' new_scan)))
     = [''# KICS_HELM_ID_1:'', ''# KICS_HELM_ID_0:'']
   \<and> Kind (files (snd (resolve_sink helm_subchart_service ''console''
                 ''../../../test/fixtures/test_helm_subchart'' new_scan)) ! 1) = KindHELM
   \<and> HelmID (files (snd (resolve_sink helm_subchart_service ''console''
                 ''../../../test/fixtures/test_helm_subchart'' new_scan)) ! 1) \<noteq> []
   \<and> Content (files (snd (resolve_sink helm_subchart_service ''console''
                 ''../../../test/fixtures/test_helm_subchart'' new_scan)) ! 1)
       = rContent test_helm_subchart_service_yaml
   \<and> OriginalData (files (snd (resolve_sink helm_subchart_service ''console''
                 ''../../../test/fixtures/test_helm_subchart'' new_scan)) ! 1)
       = rOriginalData test_helm_subchart_service_yaml
   \<and> FileName (files (snd (resolve_sink helm_subchart_service ''console''
                 ''../../../test/fixtures/test_helm_subchart'' new_scan)) ! 1)
       = rFileName test_helm_subchart_service_yaml
   \<and> IDInfo (files (snd (resolve_sink helm_subchart_service ''console''
                 ''../../../test/fixtures/test_helm_subchart'' new_scan)) ! 1)
       = rIDInfo test_helm_subchart_service_yaml"
proof -
  let ?fs = "files (snd (resolve_sink helm_subchart_service ''console''
                 ''../../../test/fixtures/test_helm_subchart'' new_scan))"
  have fs: "?fs
    = [\<lparr>ID = ''u'', ScanID = ''console'', Document = JObj [],
         OriginalData = rOriginalData test_helm_subchart_serviceaccount_yaml, Kind = KindHELM,
         FileName = rFileName test_helm_subchart_serviceaccount_yaml,
         Content = rContent test_helm_subchart_serviceaccount_yaml,
         HelmID = rSplitID test_helm_subchart_serviceaccount_yaml,
         IDInfo = rIDInfo test_helm_subchart_serviceaccount_yaml\<rparr>,
       \<lparr>ID = ''uu'', ScanID = ''console'', Document = JObj [],
         OriginalData = rOriginalData test_helm_subchart_service_yaml, Kind = KindHELM,
         FileName = rFileName test_helm_subchart_service_yaml,
         Content = rContent test_helm_subchart_service_yaml,
         HelmID = rSplitID test_helm_subchart_service_yaml,
         IDInfo = rIDInfo test_helm_subchart_service_yaml\<rparr>]"
    by (simp add: resolve_sink_def helm_subchart_service_def example_service_def
        Helm_Resolve_test_with_dependecies test_with_dependecies_want_def
        new_scan_def saveToFile_def new_uuid_def TrackFileParse_def TrackFileFound_def)
  have r: "Resolve helm_subchart_service = Helm_Resolve a_chart render_test_helm_subchart"
    by (simp add: helm_subchart_service_def example_service_def)
  have "?fs ! 1 \<in> set ?fs"
    by (simp add: fs)
  moreover have "?fs ! 1 \<notin> set (files new_scan)"
    by (simp add: new_scan_def)
  ultimately have "Kind (?fs ! 1) = GetType helm_subchart_service
                      ''../../../test/fixtures/test_helm_subchart''
     \<and> (Resolve helm_subchart_service = Helm_Resolve a_chart render_test_helm_subchart \<longrightarrow>
           HelmID (?fs ! 1) \<noteq> [] \<and> (\<exists>n. HelmID (?fs ! 1) = marker n))"
    using resolve_sink_helm_fields [of "?fs ! 1" helm_subchart_service "''console''"
        "''../../../test/fixtures/test_helm_subchart''" new_scan a_chart
        render_test_helm_subchart]
    by blast
  with r have k: "Kind (?fs ! 1) = KindHELM" and h: "HelmID (?fs ! 1) \<noteq> []"
    by (simp_all add: helm_subchart_service_def example_service_def)
  have m: "map HelmID ?fs = [''# KICS_HELM_ID_1:'', ''# KICS_HELM_ID_0:'']"
    by (simp add: fs test_helm_subchart_serviceaccount_yaml_def
        test_helm_subchart_service_yaml_def)
  have f1: "Content (?fs ! 1) = rContent test_helm_subchart_service_yaml
      \<and> OriginalData (?fs ! 1) = rOriginalData test_helm_subchart_service_yaml
      \<and> FileName (?fs ! 1) = rFileName test_helm_subchart_service_yaml
      \<and> IDInfo (?fs ! 1) = rIDInfo test_helm_subchart_service_yaml"
    by (simp add: fs)
  from m k h f1 show ?thesis
    by blast
qed

text \<open>
  Counterexample to C7 as stated: the rendered file that \<^verbatim>\<open>TestHelm_Resolve\<close> expects
  for the chart \<^verbatim>\<open>test_helm\<close> has no \<^verbatim>\<open>IDInfo\<close>. The sink saves one file of kind Helm
  for it, with the marker as \<^verbatim>\<open>HelmID\<close> and an empty \<^verbatim>\<open>IDInfo\<close>.
\<close>

theorem resolve_sink_empty_IDInfo_counterexample:
  "map Kind (files (snd (resolve_sink healthy_service ''console''
       ''../../../test/fixtures/test_helm'' new_scan))) = [KindHELM]
   \<and> map HelmID (files (snd (resolve_sink healthy_service ''console''
       ''../../../test/fixtures/test_helm'' new_scan))) = [''# KICS_HELM_ID_0:'']
   \<and> map IDInfo (files (snd (resolve_sink healthy_service ''console''
       ''../../../test/fixtures/test_helm'' new_scan))) = [[]]"
  by (simp add: resolve_sink_def healthy_service_def example_service_def
        new_scan_def test_resolve_helm_want_def test_helm_service_yaml_def saveToFile_def
        new_uuid_def TrackFileParse_def TrackFileFound_def)

text \<open>
  C9, as amended. A file the parse sink adds to the scan has an empty \<^verbatim>\<open>Content\<close> (the
  sink does not set the field), and its \<^verbatim>\<open>OriginalData\<close> is the content that
  \<^verbatim>\<open>getContent\<close> returned; \<^verbatim>\<open>HelmID\<close> and \<^verbatim>\<open>IDInfo\<close> are empty too. So \<^verbatim>\<open>Content\<close> equals
  \<^verbatim>\<open>OriginalData\<close> only for a file with no content.
\<close>

theorem parse_sink_Content_unset:
  "x \<in> set (files (snd (parse_sink s scanID filename rc st))) \<Longrightarrow> x \<notin> set (files st) \<Longrightarrow>
     Content x = [] \<and> OriginalData x = fst (getContent (rc_Read s) rc)
     \<and> HelmID x = [] \<and> IDInfo x = []"
proof -
  assume x: "x \<in> set (files (snd (parse_sink s scanID filename rc st)))"
    and new: "x \<notin> set (files st)"
  obtain content e where g: "getContent (rc_Read s) rc = (content, e)"
    by (cases "getContent (rc_Read s) rc")
  from x new g have e: "e = None"
    by (auto simp: parse_sink_def split: option.splits)
  from x new g e obtain documents kind
    where p: "Parse s filename content = Inr (documents, kind)"
    by (auto simp: parse_sink_def split: sum.splits)
  from x g e p
  have "x \<in> set (files (snd (parse_documents s scanID filename content kind documents
                               (None, TrackFileFound st))))"
    by (simp add: parse_sink_def split: prod.splits)
  from in_files_parse_documents [OF this] new g show ?thesis
    by auto
qed

text \<open>
  Witness for C9: a file \<^verbatim>\<open>pod.yaml\<close> with the content \<^verbatim>\<open>kind: Pod\<close>. The file the sink
  adds has that text as \<^verbatim>\<open>OriginalData\<close> and an empty \<^verbatim>\<open>Content\<close>.
\<close>

theorem parse_sink_Content_unset_witness:
  "files (snd (parse_sink healthy_service ''console'' ''pod.yaml'' ''kind: Pod'' new_scan)) \<noteq> []
   \<and> Content (hd (files (snd (parse_sink healthy_service ''console'' ''pod.yaml''
                 ''kind: Pod'' new_scan)))) = []
   \<and> OriginalData (hd (files (snd (parse_sink healthy_service ''console'' ''pod.yaml''
                 ''kind: Pod'' new_scan)))) = ''kind: Pod''"
proof -
  let ?fs = "files (snd (parse_sink healthy_service ''console'' ''pod.yaml''
                 ''kind: Pod'' new_scan))"
  have g: "getContent full_Read ''kind: Pod'' = (''kind: Pod'', None)"
    by (simp add: getContent_def getContent_loop.simps full_Read_def chunkSize_def)
  have ne: "?fs \<noteq> []"
    by (simp add: parse_sink_def g healthy_service_def example_service_def
        new_scan_def saveToFile_def new_uuid_def TrackFileParse_def TrackFileFound_def)
  then have "hd ?fs \<in> set ?fs" by simp
  moreover have "hd ?fs \<notin> set (files new_scan)" by (simp add: new_scan_def)
  ultimately show ?thesis
    using ne g parse_sink_Content_unset [of "hd ?fs" healthy_service "''console''"
        "''pod.yaml''" "''kind: Pod''" new_scan]
    by (simp add: healthy_service_def example_service_def)
qed

text \<open>
  Counterexample to C9 as stated: for the same file, \<^verbatim>\<open>OriginalData\<close> is the text
  \<^verbatim>\<open>kind: Pod\<close> and \<^verbatim>\<open>Content\<close> is the empty string.
\<close>

theorem parse_sink_Content_counterexample:
  "map OriginalData (files (snd (parse_sink healthy_service ''console'' ''pod.yaml''
       ''kind: Pod'' new_scan))) = [''kind: Pod'']
   \<and> map Content (files (snd (parse_sink healthy_service ''console'' ''pod.yaml''
       ''kind: Pod'' new_scan))) = ['''']"
proof -
  have g: "getContent full_Read ''kind: Pod'' = (''kind: Pod'', None)"
    by (simp add: getContent_def getContent_loop.simps full_Read_def chunkSize_def)
  show ?thesis
    by (simp add: parse_sink_def g healthy_service_def example_service_def
        new_scan_def saveToFile_def new_uuid_def TrackFileParse_def TrackFileFound_def)
qed

text \<open>
  C6, as amended. An error of \<^verbatim>\<open>SaveVulnerabilities\<close> is propagated: \<^verbatim>\<open>StartScan\<close> returns
  it, wrapped with \<^verbatim>\<open>failed to save vulnerabilities\<close>. An error of \<^verbatim>\<open>SaveFile\<close> is not:
  \<^verbatim>\<open>saveToFile\<close> does not return it and changes nothing but the storage (the file is not
  appended and not counted as parsed), and the resolve sink returns nil whenever
  \<^verbatim>\<open>Resolve\<close> and every \<^verbatim>\<open>Parse\<close> succeed, whatever \<^verbatim>\<open>SaveFile\<close> returned.
\<close>

theorem save_errors:
  "(SaveFile s (storage st) fm = (Some err, sto) \<longrightarrow>
      saveToFile s fm st = st\<lparr>storage := sto\<rparr>)
   \<and> (GetType s filename \<noteq> KindCOMMON
      \<and> Resolve s filename (GetType s filename) = (resFiles, None)
      \<and> (\<forall>rf \<in> set (File resFiles). \<exists>ds. Parse s (rFileName rf) (rContent rf) = Inr ds) \<longrightarrow>
      fst (resolve_sink s scanID filename st) = None)
   \<and> (GetSources s (SupportedExtensions s) (parse_sink s scanID) (resolve_sink s scanID) st
        = (None, st1)
      \<and> Inspect s scanID (files st1) hideProgress (GetBasePath s) = (vulnerabilities, None)
      \<and> SaveVulnerabilities s (storage st1) vulnerabilities = (Some err, sto) \<longrightarrow>
      StartScan s scanID hideProgress st
        = (Some (Wrapped err ''failed to save vulnerabilities''), st1\<lparr>storage := sto\<rparr>))"
  by (simp add: saveToFile_def resolve_sink_def resolve_files_no_error StartScan_def)

text \<open>
  Witness for C6: with a storage whose \<^verbatim>\<open>SaveFile\<close> fails, \<^verbatim>\<open>saveToFile\<close> leaves the scan
  as it was and the resolve sink returns nil for the chart \<^verbatim>\<open>test_helm\<close>; with a storage
  whose \<^verbatim>\<open>SaveVulnerabilities\<close> fails, \<^verbatim>\<open>StartScan\<close> returns the wrapped error.
\<close>

theorem save_errors_witness:
  "saveToFile failing_SaveFile_service
       \<lparr>ID = ''u'', ScanID = ''console'', Document = JObj [], OriginalData = [],
        Kind = KindHELM, FileName = ''service.yaml'', Content = [], HelmID = [], IDInfo = []\<rparr>
       new_scan = new_scan
   \<and> fst (resolve_sink failing_SaveFile_service ''console''
            ''../../../test/fixtures/test_helm'' new_scan) = None
   \<and> fst (StartScan failing_SaveVulnerabilities_service ''console'' False new_scan)
       = Some (Wrapped (errors_New ''storage unavailable'') ''failed to save vulnerabilities'')"
proof -
  have walk: "GetSources failing_SaveVulnerabilities_service
          (SupportedExtensions failing_SaveVulnerabilities_service)
          (parse_sink failing_SaveVulnerabilities_service ''console'')
          (resolve_sink failing_SaveVulnerabilities_service ''console'') new_scan
        = (None, snd (resolve_sink failing_SaveVulnerabilities_service ''console''
                        ''../../../test/fixtures/test_helm'' new_scan))"
    by (simp add: failing_SaveVulnerabilities_service_def example_service_def)
  show ?thesis
    using save_errors [where s = failing_SaveFile_service and st = new_scan
        and fm = "\<lparr>ID = ''u'', ScanID = ''console'', Document = JObj [], OriginalData = [],
          Kind = KindHELM, FileName = ''service.yaml'', Content = [], HelmID = [],
          IDInfo = []\<rparr>"
        and err = "errors_New ''storage unavailable''" and sto = "[]"
        and filename = "''../../../test/fixtures/test_helm''"
        and resFiles = test_resolve_helm_want and scanID = "''console''"]
      save_errors [where s = failing_SaveVulnerabilities_service and st = new_scan
        and err = "errors_New ''storage unavailable''"
        and sto = "storage (snd (resolve_sink failing_SaveVulnerabilities_service ''console''
                        ''../../../test/fixtures/test_helm'' new_scan))"
        and scanID = "''console''"
        and ?st1.0 = "snd (resolve_sink failing_SaveVulnerabilities_service ''console''
                        ''../../../test/fixtures/test_helm'' new_scan)"
        and hideProgress = False and vulnerabilities = "[]"]
      walk
    by (simp add: failing_SaveFile_service_def failing_SaveVulnerabilities_service_def
        example_service_def new_scan_def test_resolve_helm_want_def)
qed

text \<open>
  Counterexample to C6 as stated: a scan of the chart \<^verbatim>\<open>test_helm\<close> with a storage whose
  \<^verbatim>\<open>SaveFile\<close> fails. \<^verbatim>\<open>SaveFile\<close> is called for the one rendered document and returns an
  error, yet \<^verbatim>\<open>StartScan\<close> returns nil; the scan ends with no file.
\<close>

theorem StartScan_SaveFile_error_counterexample:
  "SaveFile failing_SaveFile_service [] 
       \<lparr>ID = ''u'', ScanID = ''console'', Document = JObj [],
        OriginalData = rOriginalData test_helm_service_yaml, Kind = KindHELM,
        FileName = rFileName test_helm_service_yaml, Content = rContent test_helm_service_yaml,
        HelmID = rSplitID test_helm_service_yaml, IDInfo = rIDInfo test_helm_service_yaml\<rparr>
     = (Some (errors_New ''storage unavailable''), [])
   \<and> StartScan failing_SaveFile_service ''console'' False new_scan
     = (None, \<lparr>files = [], storage = [], found = 1, parsed = 0, uuids = 1\<rparr>)"
  by (simp add: StartScan_def resolve_sink_def failing_SaveFile_service_def
        example_service_def new_scan_def test_resolve_helm_want_def
        saveToFile_def new_uuid_def TrackFileParse_def TrackFileFound_def)

section \<open>Properties of the CloudFront policy\<close>

lemma rego_index_keys: "rego_index v k = Some w \<Longrightarrow> k \<in> set (rego_keys v)"
proof (induction v k rule: rego_index.induct)
  case (1 kvs k)
  then have "(k, w) \<in> set kvs"
    by (auto dest: map_of_SomeD)
  then have "k \<in> fst ` set kvs"
    by force
  then show ?case by simp
next
  case (2 xs n)
  then show ?case by (auto split: if_splits)
qed simp_all

lemma CxPolicy_body_in_CxPolicy:
  assumes "CxPolicy_body input i name = Some r"
  shows "r \<in> set (CxPolicy input)"
proof -
  from assms obtain ds doc rs resource where
    ds: "rego_index input (Name ''document'') = Some ds"
    and doc: "rego_index ds i = Some doc"
    and rs: "rego_ref doc [Name ''resource'', Name ''aws_cloudfront_distribution''] = Some rs"
    and resource: "rego_index rs name = Some resource"
    by (auto simp: CxPolicy_body_def split: option.splits if_splits)
  from doc have i: "i \<in> set (rego_keys ds)" by (rule rego_index_keys)
  from resource have n: "name \<in> set (rego_keys rs)" by (rule rego_index_keys)
  have rs': "rego_ref input [Name ''document'', i, Name ''resource'',
                Name ''aws_cloudfront_distribution''] = Some rs"
    using ds doc rs by simp
  show ?thesis
    unfolding CxPolicy_def using ds i n rs' assms
    by (fastforce simp: split: option.splits)
qed

text \<open>The policy's set holds the results of the bindings of \<^verbatim>\<open>i\<close> and \<^verbatim>\<open>name\<close>, and no
  other; no result is listed twice.\<close>

lemma in_CxPolicy:
  "r \<in> set (CxPolicy input) \<longleftrightarrow> (\<exists>i name. CxPolicy_body input i name = Some r)"
proof
  assume "r \<in> set (CxPolicy input)"
  then obtain i name
    where "r \<in> set (case CxPolicy_body input i name of None \<Rightarrow> [] | Some r \<Rightarrow> [r])"
    unfolding CxPolicy_def by auto
  then have "CxPolicy_body input i name = Some r"
    by (cases "CxPolicy_body input i name") auto
  then show "\<exists>i name. CxPolicy_body input i name = Some r"
    by blast
next
  assume "\<exists>i name. CxPolicy_body input i name = Some r"
  then show "r \<in> set (CxPolicy input)"
    by (auto intro: CxPolicy_body_in_CxPolicy)
qed

lemma distinct_CxPolicy: "distinct (CxPolicy input)"
  by (simp add: CxPolicy_def)

text \<open>
  C10, as amended. Let \<^verbatim>\<open>input.document[i].resource.aws_cloudfront_distribution[name]\<close>
  be a resource whose \<^verbatim>\<open>viewer_certificate.cloudfront_default_certificate\<close> is \<^verbatim>\<open>false\<close>.
  The resource yields a finding exactly when it has a
  \<^verbatim>\<open>viewer_certificate.minimum_protocol_version\<close>, the value of that attribute is neither
  \<^verbatim>\<open>"TLSv1.1"\<close> nor \<^verbatim>\<open>"TLSv1.2"\<close>, and its document has an \<^verbatim>\<open>id\<close> (the policy copies
  \<^verbatim>\<open>input.document[i].id\<close> into the finding); otherwise it yields none, in particular
  when the attribute is absent. The finding is in the policy's set and has the
  document's id, the issue type \<^verbatim>\<open>IncorrectValue\<close> and a search key that ends in
  \<^verbatim>\<open>viewer_certificate.minimum_protocol_version\<close>.
\<close>

theorem CxPolicy_minimum_protocol_version:
  assumes "rego_ref input [Name ''document'', i, Name ''resource'',
             Name ''aws_cloudfront_distribution'', name] = Some resource"
    and "rego_ref resource [Name ''viewer_certificate'',
             Name ''cloudfront_default_certificate''] = Some (JBool False)"
  shows "if (\<exists>v d. rego_ref resource [Name ''viewer_certificate'',
                      Name ''minimum_protocol_version''] = Some v
                 \<and> v \<noteq> JStr ''TLSv1.1'' \<and> v \<noteq> JStr ''TLSv1.2''
                 \<and> rego_ref input [Name ''document'', i, Name ''id''] = Some d)
         then (\<exists>r. CxPolicy_body input i name = Some r
                 \<and> r \<in> set (CxPolicy input)
                 \<and> Some (documentId r) = rego_ref input [Name ''document'', i, Name ''id'']
                 \<and> issueType r = ''IncorrectValue''
                 \<and> searchKey r
                     = (''resource.aws_cloudfront_distribution['' @ format_s name @ ''].'')
                       @ ''viewer_certificate.minimum_protocol_version'')
         else CxPolicy_body input i name = None"
proof (cases "\<exists>v d. rego_ref resource [Name ''viewer_certificate'',
                      Name ''minimum_protocol_version''] = Some v
                 \<and> v \<noteq> JStr ''TLSv1.1'' \<and> v \<noteq> JStr ''TLSv1.2''
                 \<and> rego_ref input [Name ''document'', i, Name ''id''] = Some d")
  case True
  then obtain v d where v: "rego_ref resource [Name ''viewer_certificate'',
                      Name ''minimum_protocol_version''] = Some v"
    and ne: "v \<noteq> JStr ''TLSv1.1''" "v \<noteq> JStr ''TLSv1.2''"
    and d: "rego_ref input [Name ''document'', i, Name ''id''] = Some d"
    by blast
  let ?r = "\<lparr>documentId = d,
      searchKey = ''resource.aws_cloudfront_distribution['' @ format_s name
        @ ''].viewer_certificate.minimum_protocol_version'',
      issueType = ''IncorrectValue'',
      keyExpectedValue = ''resource.aws_cloudfront_distribution['' @ format_s name
        @ ''].viewer_certificate.minimum_protocol_version is TLSv1.1 or TLSv1.2'',
      keyActualValue = ''resource.aws_cloudfront_distribution['' @ format_s name
        @ ''].viewer_certificate.minimum_protocol_version isn't TLSv1.1 or TLSv1.2''\<rparr>"
  have r: "CxPolicy_body input i name = Some ?r"
    using assms v ne d
    by (simp add: CxPolicy_body_def checkMinProtocolVersion_def rego_not_def)
  have "CxPolicy_body input i name = Some ?r
          \<and> ?r \<in> set (CxPolicy input)
          \<and> Some (documentId ?r) = rego_ref input [Name ''document'', i, Name ''id'']
          \<and> issueType ?r = ''IncorrectValue''
          \<and> searchKey ?r
              = (''resource.aws_cloudfront_distribution['' @ format_s name @ ''].'')
                @ ''viewer_certificate.minimum_protocol_version''"
    using r d CxPolicy_body_in_CxPolicy [OF r] by simp
  then have "\<exists>r. CxPolicy_body input i name = Some r
          \<and> r \<in> set (CxPolicy input)
          \<and> Some (documentId r) = rego_ref input [Name ''document'', i, Name ''id'']
          \<and> issueType r = ''IncorrectValue''
          \<and> searchKey r
              = (''resource.aws_cloudfront_distribution['' @ format_s name @ ''].'')
                @ ''viewer_certificate.minimum_protocol_version''"
    by blast
  with True show ?thesis
    by (simp only: if_True)
next
  case False
  have "CxPolicy_body input i name = None"
  proof (cases "rego_ref resource [Name ''viewer_certificate'',
                      Name ''minimum_protocol_version'']")
    case None
    with assms show ?thesis
      by (simp add: CxPolicy_body_def)
  next
    case (Some v)
    show ?thesis
    proof (cases "rego_ref input [Name ''document'', i, Name ''id'']")
      case None
      with assms Some show ?thesis
        by (simp add: CxPolicy_body_def)
    next
      case (Some d)
      with False \<open>rego_ref resource [Name ''viewer_certificate'',
                      Name ''minimum_protocol_version''] = Some v\<close>
      have "v = JStr ''TLSv1.1'' \<or> v = JStr ''TLSv1.2''"
        by blast
      with assms Some \<open>rego_ref resource [Name ''viewer_certificate'',
                      Name ''minimum_protocol_version''] = Some v\<close>
      show ?thesis
        by (elim disjE) (simp_all add: CxPolicy_body_def checkMinProtocolVersion_def
            rego_not_def)
    qed
  qed
  with False show ?thesis
    by (simp only: if_False)
qed

text \<open>
  Witness for C10: a distribution with \<^verbatim>\<open>minimum_protocol_version = "TLSv1"\<close> yields
  the finding, and one with \<^verbatim>\<open>"TLSv1.2"\<close> yields none.
\<close>

theorem CxPolicy_minimum_protocol_version_witness:
  "(\<exists>r. CxPolicy_body (cloudfront_input ''positive1'' ''TLSv1'') (Index 0)
            (Name ''positive1'') = Some r
        \<and> r \<in> set (CxPolicy (cloudfront_input ''positive1'' ''TLSv1''))
        \<and> documentId r = JStr ''1'' \<and> issueType r = ''IncorrectValue''
        \<and> searchKey r = ''resource.aws_cloudfront_distribution[positive1].viewer_certificate.minimum_protocol_version'')
   \<and> CxPolicy_body (cloudfront_input ''negative1'' ''TLSv1.2'') (Index 0)
         (Name ''negative1'') = None"
  using CxPolicy_minimum_protocol_version [of "cloudfront_input ''positive1'' ''TLSv1''"
      "Index 0" "Name ''positive1''"
      "JObj [(''enabled'', JBool True),
             (''viewer_certificate'',
              JObj [(''cloudfront_default_certificate'', JBool False),
                    (''minimum_protocol_version'', JStr ''TLSv1'')])]"]
    CxPolicy_minimum_protocol_version [of "cloudfront_input ''negative1'' ''TLSv1.2''"
      "Index 0" "Name ''negative1''"
      "JObj [(''enabled'', JBool True),
             (''viewer_certificate'',
              JObj [(''cloudfront_default_certificate'', JBool False),
                    (''minimum_protocol_version'', JStr ''TLSv1.2'')])]"]
  by (simp add: cloudfront_input_def)

text \<open>
  Counterexample to C10 as stated: a distribution whose viewer certificate is not the
  default certificate and has no \<^verbatim>\<open>minimum_protocol_version\<close>. The attribute is neither
  \<^verbatim>\<open>"TLSv1.1"\<close> nor \<^verbatim>\<open>"TLSv1.2"\<close>, yet the policy has no finding: the argument of
  \<^verbatim>\<open>checkMinProtocolVersion\<close> is undefined. Nor has it one for a distribution with
  \<^verbatim>\<open>"TLSv1"\<close> in a document without \<^verbatim>\<open>id\<close>.
\<close>

theorem CxPolicy_absent_version_counterexample:
  "rego_ref (cloudfront_input_without_version ''positive1'')
       [Name ''document'', Index 0, Name ''resource'', Name ''aws_cloudfront_distribution'',
        Name ''positive1'', Name ''viewer_certificate'',
        Name ''cloudfront_default_certificate''] = Some (JBool False)
   \<and> rego_ref (cloudfront_input_without_version ''positive1'')
       [Name ''document'', Index 0, Name ''resource'', Name ''aws_cloudfront_distribution'',
        Name ''positive1'', Name ''viewer_certificate'',
        Name ''minimum_protocol_version''] = None
   \<and> CxPolicy (cloudfront_input_without_version ''positive1'') = []
   \<and> rego_ref (cloudfront_input_without_id ''positive1'' ''TLSv1'')
       [Name ''document'', Index 0, Name ''resource'', Name ''aws_cloudfront_distribution'',
        Name ''positive1'', Name ''viewer_certificate'',
        Name ''minimum_protocol_version''] = Some (JStr ''TLSv1'')
   \<and> CxPolicy (cloudfront_input_without_id ''positive1'' ''TLSv1'') = []"
  by (simp add: CxPolicy_def CxPolicy_body_def cloudfront_input_without_version_def
      cloudfront_input_without_id_def)
end
